theory Spec2Isabelle
  imports Main
begin

section \<open>Strings and the sanitizers of the validation chains\<close>

text \<open>
  The controllers validate every form field with chains of the shape
  \<^verbatim>\<open>body(field, message).trim().isLength({ min: n }).escape()\<close>.
  The three chain members come from the validation library, which is not part of the
  repository; they are modelled here on strings of 8-bit characters.
\<close>

definition is_space :: "char \<Rightarrow> bool" where
  \<comment> \<open>the white space that \<^verbatim>\<open>trim()\<close> strips: tab, line feed, vertical tab, form feed,
      carriage return, space, no-break space\<close>
  "is_space c = ((of_char c :: nat) \<in> {9, 10, 11, 12, 13, 32, 160})"

definition trim :: "string \<Rightarrow> string" where
  "trim s = rev (dropWhile is_space (rev (dropWhile is_space s)))"

fun escape_char :: "char \<Rightarrow> string" where
  "escape_char c =
     (if c = CHR ''&'' then ''&amp;''
      else if c = CHR 0x22 then ''&quot;''
      else if c = CHR 0x27 then ''&#x27;''
      else if c = CHR ''<'' then ''&lt;''
      else if c = CHR ''>'' then ''&gt;''
      else if c = CHR ''/'' then ''&#x2F;''
      else if c = CHR 0x5C then ''&#x5C;''
      else if c = CHR 0x60 then ''&#96;''
      else [c])"

definition escape :: "string \<Rightarrow> string" where
  \<comment> \<open>\<^verbatim>\<open>escape()\<close>: the HTML special characters are replaced by entities\<close>
  "escape s = concat (map escape_char s)"

definition to_string :: "string option \<Rightarrow> string" where
  \<comment> \<open>a chain member reads an absent field as the empty string\<close>
  "to_string v = (case v of None \<Rightarrow> [] | Some s \<Rightarrow> s)"

definition to_lower :: "char \<Rightarrow> char" where
  "to_lower c =
     (let n = (of_char c :: nat) in if 65 \<le> n \<and> n \<le> 90 then char_of (n + 32) else c)"

definition ci_equal :: "string \<Rightarrow> string \<Rightarrow> bool" where
  \<comment> \<open>Modelled from the spec: the comparison of the collation
      \<^verbatim>\<open>{ locale: "en", strength: 2 }\<close> of the data layer, which is not in the repository:
      two names match when they are equal up to the case of their letters.\<close>
  "ci_equal a b = (map to_lower a = map to_lower b)"

section \<open>Validation errors\<close>

text \<open>
  The messages of the chains are Japanese texts; each is represented by a constructor
  named after its meaning, in the order of their appearance in the controllers
  (genre name, then the four book fields, then the three book instance fields).
\<close>

datatype message =
    Genre_name_min3
  | Title_required
  | Author_required
  | Summary_required
  | Isbn_required
  | Book_required
  | Imprint_required
  | Invalid_date_format

record verror =
  path :: string
  msg :: message
  val :: string

definition required_field ::
  "string \<Rightarrow> message \<Rightarrow> nat \<Rightarrow> string option \<Rightarrow> string \<times> verror list" where
  \<comment> \<open>\<^verbatim>\<open>body(p, m).trim().isLength({ min: n }).escape()\<close>: the sanitized value that
      replaces the field of the body, and the errors of the chain\<close>
  "required_field p m n v =
     (let t = trim (to_string v)
      in (escape t, if n \<le> length t then [] else [\<lparr>path = p, msg = m, val = t\<rparr>]))"

section \<open>Data model and storage interface\<close>

text \<open>
  The models are not in the repository. The records follow the data model of the spec: a
  Genre has a name; a Book has a title, an author, a summary, an ISBN and a set of genres;
  a BookInstance has a book, an imprint, a status and an optional due date; every entity
  has an id, and a reference is the id of the entity referred to. A collection is the list
  of its documents. The value of \<^verbatim>\<open>due_back\<close> is kept as the handler passes it on:
  undefined (the field was absent), the empty string, a date, or null (the conversion of
  a string that is no date).
\<close>

type_synonym oid = string

datatype date = Date (year: nat) (month: nat) (day: nat)

datatype due =
    Due_undefined
  | Due_empty
  | Due_date date
  | Due_null

record genre =
  gid :: oid
  gname :: string

record book =
  bid :: oid
  title :: string
  author :: oid
  summary :: string
  isbn :: string
  bgenre :: "oid list"

record bookinstance =
  iid :: oid
  ibook :: oid
  imprint :: string
  status :: string
  due_back :: due

record store =
  genres :: "genre list"
  books :: "book list"
  bookinstances :: "bookinstance list"

definition find_by_id :: "('a \<Rightarrow> oid) \<Rightarrow> oid \<Rightarrow> 'a list \<Rightarrow> 'a option" where
  \<comment> \<open>Modelled from the spec: \<^verbatim>\<open>find_by_id(id) -> entity|absent\<close> of the storage
      interface (the models are not in the repository).\<close>
  "find_by_id key i xs = find (\<lambda>x. key x = i) xs"

primrec find_by_id_and_delete :: "('a \<Rightarrow> oid) \<Rightarrow> oid \<Rightarrow> 'a list \<Rightarrow> 'a list" where
  \<comment> \<open>Modelled from the spec: \<^verbatim>\<open>find_by_id_and_delete(id)\<close> of the storage interface;
      one document with that id is removed, none when there is no such document.\<close>
  "find_by_id_and_delete key i [] = []"
| "find_by_id_and_delete key i (x # xs) =
     (if key x = i then xs else x # find_by_id_and_delete key i xs)"

primrec find_by_id_and_update :: "('a \<Rightarrow> oid) \<Rightarrow> oid \<Rightarrow> 'a \<Rightarrow> 'a list \<Rightarrow> 'a list" where
  \<comment> \<open>Modelled from the spec: \<^verbatim>\<open>find_by_id_and_update(id, entity)\<close> of the storage
      interface, a full replace of the fields of the document stored under the id;
      nothing is inserted when there is no such document.\<close>
  "find_by_id_and_update key i d [] = []"
| "find_by_id_and_update key i d (x # xs) =
     (if key x = i then d # xs else x # find_by_id_and_update key i d xs)"

definition save :: "'a \<Rightarrow> 'a list \<Rightarrow> 'a list" where
  \<comment> \<open>Modelled from the spec: \<^verbatim>\<open>save(entity)\<close> of the storage interface, for a new
      document.\<close>
  "save d xs = xs @ [d]"


definition book_url :: "book \<Rightarrow> string" where
  \<comment> \<open>Modelled from the spec: the derived \<^verbatim>\<open>url\<close> of a Book, built from its id.\<close>
  "book_url b = ''/book/'' @ bid b"

definition bookinstance_url :: "bookinstance \<Rightarrow> string" where
  \<comment> \<open>Modelled from the spec: the derived \<^verbatim>\<open>url\<close> of a BookInstance, built from its
      id.\<close>
  "bookinstance_url b = ''/bookinstance/'' @ iid b"

section \<open>What a handler does to the response\<close>

text \<open>
  A handler is modelled by the calls it makes on the response object and on
  \<^verbatim>\<open>next\<close>, in the order in which it makes them, together with the store it leaves.
  The locals of a view that only fill its select boxes (all authors, all genres with their
  check marks, all books) and its constant title are read-only and left out; a document
  handed to a view is handed over as stored, its references not resolved.
\<close>

datatype locals =
    Genre_form genre "verror list"
  | Genre_delete "genre option" "(oid \<times> string \<times> string) list"
  | Book_form book "verror list"
  | Book_delete "book option" "bookinstance list"
  | Bookinstance_form bookinstance oid "verror list"
  | Bookinstance_delete "bookinstance option"

datatype failure = Type_error

datatype call =
    Render string locals
  | Redirect string
  | Next failure

fun status_code :: "call \<Rightarrow> nat" where
  \<comment> \<open>Modelled from the spec: a rendered view is answered with the success status 200, a
      redirect with 302; a fault handed to \<^verbatim>\<open>next\<close> surfaces as an internal error.\<close>
  "status_code (Render v l) = 200"
| "status_code (Redirect u) = 302"
| "status_code (Next e) = 500"

section \<open>Genre controller\<close>



definition books_in_genre :: "store \<Rightarrow> oid \<Rightarrow> (oid \<times> string \<times> string) list" where
  \<comment> \<open>\<^verbatim>\<open>Book.find({ genre: id }, "title summary")\<close>\<close>
  "books_in_genre s i =
     map (\<lambda>b. (bid b, title b, summary b)) (filter (\<lambda>b. i \<in> set (bgenre b)) (books s))"

definition genre_delete_get :: "store \<Rightarrow> oid \<Rightarrow> call list" where
  "genre_delete_get s i =
     (let genre = find_by_id gid i (genres s);
          booksInGenre = books_in_genre s i
      in (if genre = None then [Redirect ''/catalog/genres''] else [])
         @ [Render ''genre_delete'' (Genre_delete genre booksInGenre)])"

definition genre_delete_post :: "store \<Rightarrow> oid \<Rightarrow> oid \<Rightarrow> call list \<times> store" where
  \<comment> \<open>the second argument is the id of the URL (\<^verbatim>\<open>req.params.id\<close>), the third the id
      of the body (\<^verbatim>\<open>req.body.id\<close>)\<close>
  "genre_delete_post s params_id body_id =
     (let genre = find_by_id gid params_id (genres s);
          booksInGenre = books_in_genre s params_id
      in if length booksInGenre > 0
         then ([Render ''genre_delete'' (Genre_delete genre booksInGenre)], s)
         else ([Redirect ''/catalog/genres''],
               s\<lparr>genres := find_by_id_and_delete gid body_id (genres s)\<rparr>))"


section \<open>Book controller\<close>

datatype form_value = Absent | Scalar string | Seq "string list"

record book_body =
  f_title :: "string option"
  f_author :: "string option"
  f_summary :: "string option"
  f_isbn :: "string option"
  f_genre :: form_value

definition genre_to_array :: "book_body \<Rightarrow> book_body" where
  \<comment> \<open>the first member of \<^verbatim>\<open>book_create_post\<close> and of \<^verbatim>\<open>book_update_post\<close>: a
      field that is an array is left alone, an undefined one becomes the empty array, any
      other value the array of that value\<close>
  "genre_to_array b =
     (case f_genre b of
        Seq xs \<Rightarrow> b
      | Absent \<Rightarrow> b\<lparr>f_genre := Seq []\<rparr>
      | Scalar v \<Rightarrow> b\<lparr>f_genre := Seq [v]\<rparr>)"

definition book_validate :: "oid \<Rightarrow> book_body \<Rightarrow> book \<times> verror list" where
  \<comment> \<open>the validation chains of the book forms, and the document built from the
      sanitized body under the given id; behind \<open>genre_to_array\<close> the genre field is
      always a sequence, whose members \<^verbatim>\<open>body("genre.*").escape()\<close> escapes\<close>
  "book_validate i b =
     (let (t, e1) = required_field ''title'' Title_required 1 (f_title b);
          (a, e2) = required_field ''author'' Author_required 1 (f_author b);
          (s, e3) = required_field ''summary'' Summary_required 1 (f_summary b);
          (n, e4) = required_field ''isbn'' Isbn_required 1 (f_isbn b);
          g = (case f_genre b of Seq xs \<Rightarrow> map escape xs | Scalar v \<Rightarrow> [v] | Absent \<Rightarrow> [])
      in (\<lparr>bid = i, title = t, author = a, summary = s, isbn = n, bgenre = g\<rparr>,
          e1 @ e2 @ e3 @ e4))"

definition book_create_post :: "oid \<Rightarrow> store \<Rightarrow> book_body \<Rightarrow> call list \<times> store" where
  "book_create_post fresh s body =
     (let (book, errors) = book_validate fresh (genre_to_array body)
      in if errors \<noteq> [] then ([Render ''book_form'' (Book_form book errors)], s)
         else ([Redirect (book_url book)], s\<lparr>books := save book (books s)\<rparr>))"

definition instances_of_book :: "store \<Rightarrow> oid \<Rightarrow> bookinstance list" where
  \<comment> \<open>\<^verbatim>\<open>BookInstance.find({ book: id })\<close>\<close>
  "instances_of_book s i = filter (\<lambda>c. ibook c = i) (bookinstances s)"

definition book_delete_get :: "store \<Rightarrow> oid \<Rightarrow> call list" where
  "book_delete_get s i =
     (let book = find_by_id bid i (books s);
          bookInstances = instances_of_book s i
      in (if book = None then [Redirect ''/catalog/books''] else [])
         @ [Render ''book_delete'' (Book_delete book bookInstances)])"

definition book_delete_post :: "store \<Rightarrow> oid \<Rightarrow> oid \<Rightarrow> call list \<times> store" where
  "book_delete_post s params_id body_id =
     (let book = find_by_id bid params_id (books s);
          bookInstances = instances_of_book s params_id;
          first = (if book = None then [Redirect ''/catalog/books''] else [])
      in if length bookInstances > 0
         then (first @ [Render ''book_delete'' (Book_delete book bookInstances)], s)
         else (first @ [Redirect ''/catalog/books''],
               s\<lparr>books := find_by_id_and_delete bid body_id (books s)\<rparr>))"

definition book_update_post :: "store \<Rightarrow> oid \<Rightarrow> book_body \<Rightarrow> call list \<times> store" where
  \<comment> \<open>the update hands back the document as it was stored before, or nothing when the id
      is not stored; reading the \<^verbatim>\<open>url\<close> of nothing is a type error, which the wrapper
      of the handler passes to \<^verbatim>\<open>next\<close>\<close>
  "book_update_post s params_id body =
     (let (book, errors) = book_validate params_id (genre_to_array body)
      in if errors \<noteq> [] then ([Render ''book_form'' (Book_form book errors)], s)
         else (let thebook = find_by_id bid params_id (books s);
                   s' = s\<lparr>books := find_by_id_and_update bid params_id book (books s)\<rparr>
               in case thebook of
                    None \<Rightarrow> ([Next Type_error], s')
                  | Some b \<Rightarrow> ([Redirect (book_url b)], s')))"

section \<open>BookInstance controller\<close>

record instance_body =
  f_book :: "string option"
  f_imprint :: "string option"
  f_status :: "string option"
  f_due_back :: "string option"

record date_lib =
  isISO8601 :: "string \<Rightarrow> bool"
  toDate :: "string \<Rightarrow> date option"

definition due_back_field :: "date_lib \<Rightarrow> string option \<Rightarrow> due \<times> verror list" where
  \<comment> \<open>\<^verbatim>\<open>body("due_back", m).optional({ values: "falsy" }).isISO8601().toDate()\<close>: an absent
      or empty field is left as it is and not checked; the date check and the conversion
      belong to the validation library and are parameters\<close>
  "due_back_field lib v =
     (case v of
        None \<Rightarrow> (Due_undefined, [])
      | Some d \<Rightarrow>
          if d = [] then (Due_empty, [])
          else ((case toDate lib d of Some t \<Rightarrow> Due_date t | None \<Rightarrow> Due_null),
                if isISO8601 lib d then []
                else [\<lparr>path = ''due_back'', msg = Invalid_date_format, val = d\<rparr>]))"

definition instance_validate ::
  "date_lib \<Rightarrow> oid \<Rightarrow> instance_body \<Rightarrow> bookinstance \<times> verror list" where
  "instance_validate lib i b =
     (let (bk, e1) = required_field ''book'' Book_required 1 (f_book b);
          (im, e2) = required_field ''imprint'' Imprint_required 1 (f_imprint b);
          st = escape (to_string (f_status b));
          (d, e4) = due_back_field lib (f_due_back b)
      in (\<lparr>iid = i, ibook = bk, imprint = im, status = st, due_back = d\<rparr>, e1 @ e2 @ e4))"

definition bookinstance_create_post ::
  "date_lib \<Rightarrow> oid \<Rightarrow> store \<Rightarrow> instance_body \<Rightarrow> call list \<times> store" where
  "bookinstance_create_post lib fresh s body =
     (let (bookInstance, errors) = instance_validate lib fresh body
      in if errors \<noteq> []
         then ([Render ''bookinstance_form''
                  (Bookinstance_form bookInstance (ibook bookInstance) errors)], s)
         else ([Redirect (bookinstance_url bookInstance)],
               s\<lparr>bookinstances := save bookInstance (bookinstances s)\<rparr>))"

definition bookinstance_delete_get :: "store \<Rightarrow> oid \<Rightarrow> call list" where
  "bookinstance_delete_get s i =
     (let bookInstance = find_by_id iid i (bookinstances s)
      in (if bookInstance = None then [Redirect ''/catalog/bookinstances''] else [])
         @ [Render ''bookinstance_delete'' (Bookinstance_delete bookInstance)])"

definition bookinstance_delete_post :: "store \<Rightarrow> oid \<Rightarrow> call list \<times> store" where
  "bookinstance_delete_post s body_id =
     ([Redirect ''/catalog/bookinstances''],
      s\<lparr>bookinstances := find_by_id_and_delete iid body_id (bookinstances s)\<rparr>)"

definition bookinstance_update_post ::
  "date_lib \<Rightarrow> store \<Rightarrow> oid \<Rightarrow> instance_body \<Rightarrow> call list \<times> store" where
  "bookinstance_update_post lib s params_id body =
     (let (bookInstance, errors) = instance_validate lib params_id body
      in if errors \<noteq> []
         then ([Render ''bookinstance_form''
                  (Bookinstance_form bookInstance (ibook bookInstance) errors)], s)
         else ([Redirect (bookinstance_url bookInstance)],
               s\<lparr>bookinstances :=
                    find_by_id_and_update iid params_id bookInstance (bookinstances s)\<rparr>))"

section \<open>Sample data\<close>

text \<open>
  A small store and an instance of the date parameter on which the model is run: the
  instance accepts the calendar dates written \<^verbatim>\<open>YYYY-MM-DD\<close> with a month from 01 to 12
  and a day from 01 to 31, and converts them to their year, month and day.
\<close>

definition calendar_num :: "string \<Rightarrow> nat option" where
  "calendar_num s =
     (if s \<noteq> [] \<and> list_all (\<lambda>c. 48 \<le> (of_char c :: nat) \<and> (of_char c :: nat) \<le> 57) s
      then Some (foldl (\<lambda>n c. 10 * n + ((of_char c :: nat) - 48)) 0 s)
      else None)"

definition calendar_date :: "string \<Rightarrow> date option" where
  "calendar_date s =
     (if length s = 10 \<and> s ! 4 = CHR ''-'' \<and> s ! 7 = CHR ''-''
      then (case (calendar_num (take 4 s), calendar_num (take 2 (drop 5 s)),
                  calendar_num (drop 8 s)) of
              (Some y, Some m, Some d) \<Rightarrow>
                if 1 \<le> m \<and> m \<le> 12 \<and> 1 \<le> d \<and> d \<le> 31 then Some (Date y m d) else None
            | _ \<Rightarrow> None)
      else None)"

definition calendar_lib :: date_lib where
  "calendar_lib = \<lparr>isISO8601 = (\<lambda>s. calendar_date s \<noteq> None), toDate = calendar_date\<rparr>"

text \<open>
  A second instance follows the validation library itself, which is not in the repository,
  on the two calendar forms of ISO 8601, \<^verbatim>\<open>YYYY-MM-DD\<close> and \<^verbatim>\<open>YYYYMMDD\<close>, and on no
  other string. The check of the library is not strict: it accepts both forms with a month
  from 01 to 12 and a day from 01 to 31, whatever the length of the month. The conversion
  is the date parser of the runtime: it reads the first form, carrying a day beyond the
  end of the month over into the next month, and it does not read the second form, for
  which the conversion yields null.
\<close>

definition days_in_month :: "nat \<Rightarrow> nat \<Rightarrow> nat" where
  "days_in_month y m =
     (if m = 2
      then (if y mod 400 = 0 then 29 else if y mod 100 = 0 then 28
            else if y mod 4 = 0 then 29 else 28)
      else if m = 4 then 30 else if m = 6 then 30 else if m = 9 then 30
      else if m = 11 then 30 else 31)"

definition basic_date :: "string \<Rightarrow> date option" where
  "basic_date s =
     (if length s = 8
      then (case (calendar_num (take 4 s), calendar_num (take 2 (drop 4 s)),
                  calendar_num (drop 6 s)) of
              (Some y, Some m, Some d) \<Rightarrow>
                if 1 \<le> m \<and> m \<le> 12 \<and> 1 \<le> d \<and> d \<le> 31 then Some (Date y m d) else None
            | _ \<Rightarrow> None)
      else None)"

definition parsed_date :: "string \<Rightarrow> date option" where
  "parsed_date s =
     (case calendar_date s of
        None \<Rightarrow> None
      | Some t \<Rightarrow>
          Some (if day t \<le> days_in_month (year t) (month t) then t
                else Date (year t) (month t + 1) (day t - days_in_month (year t) (month t))))"

definition validator_lib :: date_lib where
  "validator_lib =
     \<lparr>isISO8601 = (\<lambda>s. \<not> (calendar_date s = None \<and> basic_date s = None)),
      toDate = parsed_date\<rparr>"

definition library :: store where
  "library =
     \<lparr>genres = [\<lparr>gid = ''g1'', gname = ''Fantasy''\<rparr>, \<lparr>gid = ''g2'', gname = ''Poetry''\<rparr>],
      books = [\<lparr>bid = ''b1'', title = ''Dune'', author = ''a1'', summary = ''Sand'',
                isbn = ''9780441013593'', bgenre = [''g2'']\<rparr>,
               \<lparr>bid = ''b2'', title = ''Emma'', author = ''a2'', summary = ''Match'',
                isbn = ''9780141439587'', bgenre = []\<rparr>],
      bookinstances = [\<lparr>iid = ''c1'', ibook = ''b1'', imprint = ''Ace, 2005'',
                        status = ''Available'', due_back = Due_undefined\<rparr>]\<rparr>"

definition emma_form :: book_body where
  "emma_form =
     \<lparr>f_title = Some '' Emma '', f_author = Some ''a2'', f_summary = Some ''Match & more'',
      f_isbn = Some ''9780141439587'', f_genre = Scalar ''g1''\<rparr>"

definition copy_form :: instance_body where
  "copy_form =
     \<lparr>f_book = Some ''b2'', f_imprint = Some '' Penguin, 2003 '',
      f_status = Some ''Lost <worn>'', f_due_back = Some ''2024-01-31''\<rparr>"

section \<open>Facts about the storage interface\<close>

lemma find_by_id_delete_other:
  "j \<noteq> i \<Longrightarrow> find_by_id key j (find_by_id_and_delete key i xs) = find_by_id key j xs"
  by (induction xs) (simp_all add: find_by_id_def)

lemma find_by_id_notin:
  "i \<notin> set (map key xs) \<Longrightarrow> find_by_id key i xs = None"
  by (induction xs) (auto simp: find_by_id_def)

lemma find_by_id_delete_same:
  "distinct (map key xs) \<Longrightarrow> find_by_id key i (find_by_id_and_delete key i xs) = None"
proof (induction xs)
  case Nil
  then show ?case by (simp add: find_by_id_def)
next
  case (Cons x xs)
  show ?case
  proof (cases "key x = i")
    case True
    with Cons.prems have "i \<notin> set (map key xs)" by auto
    with True show ?thesis by (simp add: find_by_id_notin)
  next
    case False
    with Cons show ?thesis by (simp add: find_by_id_def)
  qed
qed

lemma delete_absent:
  "find_by_id key i xs = None \<Longrightarrow> find_by_id_and_delete key i xs = xs"
  by (induction xs) (auto simp: find_by_id_def split: if_splits)

lemma delete_keeps_others:
  "filter (\<lambda>x. key x \<noteq> i) (find_by_id_and_delete key i xs) = filter (\<lambda>x. key x \<noteq> i) xs"
  by (induction xs) simp_all




section \<open>Facts about the sanitizers and the validation chains\<close>

lemma find_by_id_key: "find_by_id key i xs = Some x \<Longrightarrow> key x = i"
  by (auto simp: find_by_id_def find_Some_iff)




lemma required_field_fst: "fst (required_field p m n v) = escape (trim (to_string v))"
  by (simp add: required_field_def Let_def)

lemma required_field_path: "e \<in> set (snd (required_field p m n v)) \<Longrightarrow> path e = p"
  by (auto simp: required_field_def Let_def split: if_splits)

lemma to_lower_upper:
  assumes "65 \<le> (of_char c :: nat)" "(of_char c :: nat) \<le> 90"
  shows "(of_char (to_lower c) :: nat) = of_char c + 32"
  using assms by (simp add: to_lower_def Let_def)

lemma to_lower_other:
  "\<not> (65 \<le> (of_char c :: nat) \<and> (of_char c :: nat) \<le> 90) \<Longrightarrow> to_lower c = c"
  by (auto simp: to_lower_def Let_def)


lemma is_space_to_lower: "is_space (to_lower c) = is_space c"
proof (cases "65 \<le> (of_char c :: nat) \<and> (of_char c :: nat) \<le> 90")
  case True
  then have "(of_char (to_lower c) :: nat) = of_char c + 32" by (simp add: to_lower_upper)
  with True show ?thesis by (auto simp: is_space_def)
next
  case False
  then show ?thesis by (simp add: to_lower_other)
qed



lemma trim_to_lower: "trim (map to_lower s) = map to_lower (trim s)"
proof -
  have "is_space \<circ> to_lower = is_space" by (rule ext) (simp add: is_space_to_lower)
  then show ?thesis by (simp add: trim_def dropWhile_map rev_map)
qed


lemma ci_equal_trim: "ci_equal a b \<Longrightarrow> ci_equal (trim a) (trim b)"
  unfolding ci_equal_def by (metis trim_to_lower)




lemma genre_to_array_idem: "genre_to_array (genre_to_array b) = genre_to_array b"
  by (cases "f_genre b") (simp_all add: genre_to_array_def)

lemma genre_to_array_fields:
  "f_title (genre_to_array b) = f_title b" "f_author (genre_to_array b) = f_author b"
  "f_summary (genre_to_array b) = f_summary b" "f_isbn (genre_to_array b) = f_isbn b"
  "f_genre (genre_to_array b)
     = Seq (case f_genre b of Absent \<Rightarrow> [] | Scalar v \<Rightarrow> [v] | Seq xs \<Rightarrow> xs)"
  by (cases "f_genre b"; simp add: genre_to_array_def)+

lemma book_validate_title:
  "trim (to_string (f_title b)) = [] \<Longrightarrow>
   \<lparr>path = ''title'', msg = Title_required, val = []\<rparr> \<in> set (snd (book_validate i b))"
  by (simp add: book_validate_def split_beta Let_def required_field_def)

lemma book_validate_doc:
  "fst (book_validate i (genre_to_array b)) =
     \<lparr>bid = i,
      title = escape (trim (to_string (f_title b))),
      author = escape (trim (to_string (f_author b))),
      summary = escape (trim (to_string (f_summary b))),
      isbn = escape (trim (to_string (f_isbn b))),
      bgenre = map escape (case f_genre b of Absent \<Rightarrow> [] | Scalar v \<Rightarrow> [v] | Seq xs \<Rightarrow> xs)\<rparr>"
  by (simp add: book_validate_def split_beta required_field_fst genre_to_array_fields)


lemma due_back_field_path:
  "e \<in> set (snd (due_back_field lib v)) \<Longrightarrow> e = \<lparr>path = ''due_back'', msg = Invalid_date_format, val = to_string v\<rparr>"
  by (auto simp: due_back_field_def to_string_def split: option.splits if_splits)



lemma instance_validate_errors:
  "snd (instance_validate lib i b) =
     snd (required_field ''book'' Book_required 1 (f_book b))
     @ snd (required_field ''imprint'' Imprint_required 1 (f_imprint b))
     @ snd (due_back_field lib (f_due_back b))"
  by (simp add: instance_validate_def split_beta Let_def)

lemma instance_validate_doc:
  "fst (instance_validate lib i b) =
     \<lparr>iid = i,
      ibook = escape (trim (to_string (f_book b))),
      imprint = escape (trim (to_string (f_imprint b))),
      status = escape (to_string (f_status b)),
      due_back = fst (due_back_field lib (f_due_back b))\<rparr>"
  by (simp add: instance_validate_def split_beta Let_def required_field_fst)

lemma instance_validate_no_status_error:
  "e \<in> set (snd (instance_validate lib i b)) \<Longrightarrow> path e \<noteq> ''status''"
  by (auto simp: instance_validate_errors dest: required_field_path due_back_field_path)


lemma bookinstance_create_post_cases:
  "bookinstance_create_post lib fresh s body =
     (if snd (instance_validate lib fresh body) \<noteq> []
      then ([Render ''bookinstance_form''
               (Bookinstance_form (fst (instance_validate lib fresh body))
                  (ibook (fst (instance_validate lib fresh body)))
                  (snd (instance_validate lib fresh body)))], s)
      else ([Redirect (bookinstance_url (fst (instance_validate lib fresh body)))],
            s\<lparr>bookinstances := bookinstances s @ [fst (instance_validate lib fresh body)]\<rparr>))"
  by (simp add: bookinstance_create_post_def split_beta save_def)

lemma bookinstance_update_post_cases:
  "bookinstance_update_post lib s i body =
     (if snd (instance_validate lib i body) \<noteq> []
      then ([Render ''bookinstance_form''
               (Bookinstance_form (fst (instance_validate lib i body))
                  (ibook (fst (instance_validate lib i body)))
                  (snd (instance_validate lib i body)))], s)
      else ([Redirect (bookinstance_url (fst (instance_validate lib i body)))],
            s\<lparr>bookinstances :=
                 find_by_id_and_update iid i (fst (instance_validate lib i body))
                   (bookinstances s)\<rparr>))"
  by (simp add: bookinstance_update_post_def split_beta)

lemma required_field_snd:
  "snd (required_field p m n v) =
     (if n \<le> length (trim (to_string v)) then []
      else [\<lparr>path = p, msg = m, val = trim (to_string v)\<rparr>])"
  by (simp add: required_field_def Let_def)

lemma book_validate_errors:
  "snd (book_validate i (genre_to_array b)) =
     (if 1 \<le> length (trim (to_string (f_title b))) then []
      else [\<lparr>path = ''title'', msg = Title_required, val = trim (to_string (f_title b))\<rparr>])
     @ (if 1 \<le> length (trim (to_string (f_author b))) then []
        else [\<lparr>path = ''author'', msg = Author_required, val = trim (to_string (f_author b))\<rparr>])
     @ (if 1 \<le> length (trim (to_string (f_summary b))) then []
        else [\<lparr>path = ''summary'', msg = Summary_required,
                val = trim (to_string (f_summary b))\<rparr>])
     @ (if 1 \<le> length (trim (to_string (f_isbn b))) then []
        else [\<lparr>path = ''isbn'', msg = Isbn_required, val = trim (to_string (f_isbn b))\<rparr>])"
  by (simp add: book_validate_def split_beta required_field_def Let_def genre_to_array_fields)

section \<open>The book forms\<close>

text \<open>
  Claim C7. In \<^verbatim>\<open>book_create_post\<close> and \<^verbatim>\<open>book_update_post\<close> the genre field is made
  a sequence before validation: an absent field becomes the empty sequence, a single value
  the sequence of that value, and a sequence is left as it is; the other fields are not
  touched. What the two handlers answer is written out for every body: the errors are those
  of the four required fields, and the book they hand to the form, store or put in the
  place of the stored one has as its genres the escaped members of that sequence.
\<close>

theorem genre_field_normalized:
  "genre_to_array (b\<lparr>f_genre := Absent\<rparr>) = b\<lparr>f_genre := Seq []\<rparr>
   \<and> genre_to_array (b\<lparr>f_genre := Scalar v\<rparr>) = b\<lparr>f_genre := Seq [v]\<rparr>
   \<and> genre_to_array (b\<lparr>f_genre := Seq xs\<rparr>) = b\<lparr>f_genre := Seq xs\<rparr>
   \<and> book_create_post fresh s b =
       (let genre = (case f_genre b of Absent \<Rightarrow> [] | Scalar v \<Rightarrow> [v] | Seq xs \<Rightarrow> xs);
            book = \<lparr>bid = fresh,
                    title = escape (trim (to_string (f_title b))),
                    author = escape (trim (to_string (f_author b))),
                    summary = escape (trim (to_string (f_summary b))),
                    isbn = escape (trim (to_string (f_isbn b))),
                    bgenre = map escape genre\<rparr>;
            errors =
              (if 1 \<le> length (trim (to_string (f_title b))) then []
               else [\<lparr>path = ''title'', msg = Title_required,
                       val = trim (to_string (f_title b))\<rparr>])
              @ (if 1 \<le> length (trim (to_string (f_author b))) then []
                 else [\<lparr>path = ''author'', msg = Author_required,
                         val = trim (to_string (f_author b))\<rparr>])
              @ (if 1 \<le> length (trim (to_string (f_summary b))) then []
                 else [\<lparr>path = ''summary'', msg = Summary_required,
                         val = trim (to_string (f_summary b))\<rparr>])
              @ (if 1 \<le> length (trim (to_string (f_isbn b))) then []
                 else [\<lparr>path = ''isbn'', msg = Isbn_required,
                         val = trim (to_string (f_isbn b))\<rparr>])
        in if errors \<noteq> [] then ([Render ''book_form'' (Book_form book errors)], s)
           else ([Redirect (''/book/'' @ fresh)], s\<lparr>books := books s @ [book]\<rparr>))
   \<and> book_update_post s i b =
       (let genre = (case f_genre b of Absent \<Rightarrow> [] | Scalar v \<Rightarrow> [v] | Seq xs \<Rightarrow> xs);
            book = \<lparr>bid = i,
                    title = escape (trim (to_string (f_title b))),
                    author = escape (trim (to_string (f_author b))),
                    summary = escape (trim (to_string (f_summary b))),
                    isbn = escape (trim (to_string (f_isbn b))),
                    bgenre = map escape genre\<rparr>;
            errors =
              (if 1 \<le> length (trim (to_string (f_title b))) then []
               else [\<lparr>path = ''title'', msg = Title_required,
                       val = trim (to_string (f_title b))\<rparr>])
              @ (if 1 \<le> length (trim (to_string (f_author b))) then []
                 else [\<lparr>path = ''author'', msg = Author_required,
                         val = trim (to_string (f_author b))\<rparr>])
              @ (if 1 \<le> length (trim (to_string (f_summary b))) then []
                 else [\<lparr>path = ''summary'', msg = Summary_required,
                         val = trim (to_string (f_summary b))\<rparr>])
              @ (if 1 \<le> length (trim (to_string (f_isbn b))) then []
                 else [\<lparr>path = ''isbn'', msg = Isbn_required,
                         val = trim (to_string (f_isbn b))\<rparr>])
        in if errors \<noteq> [] then ([Render ''book_form'' (Book_form book errors)], s)
           else (case find_by_id bid i (books s) of
                   None \<Rightarrow>
                     ([Next Type_error],
                      s\<lparr>books := find_by_id_and_update bid i book (books s)\<rparr>)
                 | Some thebook \<Rightarrow>
                     ([Redirect (''/book/'' @ i)],
                      s\<lparr>books := find_by_id_and_update bid i book (books s)\<rparr>)))"
proof -
  have a: "genre_to_array (b\<lparr>f_genre := Absent\<rparr>) = b\<lparr>f_genre := Seq []\<rparr>"
    and c: "genre_to_array (b\<lparr>f_genre := Scalar v\<rparr>) = b\<lparr>f_genre := Seq [v]\<rparr>"
    and d: "genre_to_array (b\<lparr>f_genre := Seq xs\<rparr>) = b\<lparr>f_genre := Seq xs\<rparr>"
    by (simp_all add: genre_to_array_def)
  have e: "book_create_post fresh s b =
       (if snd (book_validate fresh (genre_to_array b)) \<noteq> []
        then ([Render ''book_form''
                 (Book_form (fst (book_validate fresh (genre_to_array b)))
                    (snd (book_validate fresh (genre_to_array b))))], s)
        else ([Redirect (''/book/'' @ fresh)],
              s\<lparr>books := books s @ [fst (book_validate fresh (genre_to_array b))]\<rparr>))"
    by (simp add: book_create_post_def split_beta save_def book_url_def book_validate_doc)
  have f: "book_update_post s i b =
       (if snd (book_validate i (genre_to_array b)) \<noteq> []
        then ([Render ''book_form''
                 (Book_form (fst (book_validate i (genre_to_array b)))
                    (snd (book_validate i (genre_to_array b))))], s)
        else (case find_by_id bid i (books s) of
                None \<Rightarrow>
                  ([Next Type_error],
                   s\<lparr>books := find_by_id_and_update bid i
                                  (fst (book_validate i (genre_to_array b))) (books s)\<rparr>)
              | Some thebook \<Rightarrow>
                  ([Redirect (''/book/'' @ i)],
                   s\<lparr>books := find_by_id_and_update bid i
                                  (fst (book_validate i (genre_to_array b))) (books s)\<rparr>)))"
    by (auto simp: book_update_post_def split_beta Let_def book_url_def
        dest: find_by_id_key split: option.splits)
  show ?thesis
    unfolding Let_def
    by (intro conjI a c d)
       (simp_all only: e f book_validate_doc book_validate_errors)
qed

theorem genre_field_normalized_witness:
  "genre_to_array emma_form = emma_form\<lparr>f_genre := Seq [''g1'']\<rparr>
   \<and> book_create_post ''b3'' library emma_form =
       ([Redirect ''/book/b3''],
        library\<lparr>books := books library
                 @ [\<lparr>bid = ''b3'', title = ''Emma'', author = ''a2'',
                      summary = ''Match &amp; more'', isbn = ''9780141439587'',
                      bgenre = [''g1'']\<rparr>]\<rparr>)
   \<and> book_create_post ''b3'' library (emma_form\<lparr>f_genre := Absent\<rparr>) =
       ([Redirect ''/book/b3''],
        library\<lparr>books := books library
                 @ [\<lparr>bid = ''b3'', title = ''Emma'', author = ''a2'',
                      summary = ''Match &amp; more'', isbn = ''9780141439587'',
                      bgenre = []\<rparr>]\<rparr>)
   \<and> book_create_post ''b3'' library (emma_form\<lparr>f_genre := Seq [''g1'', ''g<2'']\<rparr>) =
       ([Redirect ''/book/b3''],
        library\<lparr>books := books library
                 @ [\<lparr>bid = ''b3'', title = ''Emma'', author = ''a2'',
                      summary = ''Match &amp; more'', isbn = ''9780141439587'',
                      bgenre = [''g1'', ''g&lt;2'']\<rparr>]\<rparr>)
   \<and> fst (book_update_post library ''b2'' emma_form) = [Redirect ''/book/b2'']
   \<and> find_by_id bid ''b2'' (books (snd (book_update_post library ''b2'' emma_form)))
       = Some \<lparr>bid = ''b2'', title = ''Emma'', author = ''a2'',
               summary = ''Match &amp; more'', isbn = ''9780141439587'', bgenre = [''g1'']\<rparr>"
proof -
  have e: "emma_form\<lparr>f_genre := Scalar ''g1''\<rparr> = emma_form" by (simp add: emma_form_def)
  note t = genre_field_normalized
    [where b = emma_form and v = "''g1''" and xs = "[''g1'']" and fresh = "''b3''"
       and s = library and i = "''b2''"]
  have a: "genre_to_array emma_form = emma_form\<lparr>f_genre := Seq [''g1'']\<rparr>"
    using t [THEN conjunct2, THEN conjunct1] unfolding e .
  have c: "book_create_post ''b3'' library emma_form =
       ([Redirect ''/book/b3''],
        library\<lparr>books := books library
                 @ [\<lparr>bid = ''b3'', title = ''Emma'', author = ''a2'',
                      summary = ''Match &amp; more'', isbn = ''9780141439587'',
                      bgenre = [''g1'']\<rparr>]\<rparr>)"
    by (rule trans [OF t [THEN conjunct2, THEN conjunct2, THEN conjunct2, THEN conjunct1]])
       code_simp
  have d: "book_create_post ''b3'' library (emma_form\<lparr>f_genre := Absent\<rparr>) =
       ([Redirect ''/book/b3''],
        library\<lparr>books := books library
                 @ [\<lparr>bid = ''b3'', title = ''Emma'', author = ''a2'',
                      summary = ''Match &amp; more'', isbn = ''9780141439587'',
                      bgenre = []\<rparr>]\<rparr>)"
    by (rule trans [OF genre_field_normalized
          [where b = "emma_form\<lparr>f_genre := Absent\<rparr>" and v = "''g1''" and xs = "[''g1'']"
             and fresh = "''b3''" and s = library and i = "''b2''",
           THEN conjunct2, THEN conjunct2, THEN conjunct2, THEN conjunct1]])
       code_simp
  have f: "book_create_post ''b3'' library (emma_form\<lparr>f_genre := Seq [''g1'', ''g<2'']\<rparr>) =
       ([Redirect ''/book/b3''],
        library\<lparr>books := books library
                 @ [\<lparr>bid = ''b3'', title = ''Emma'', author = ''a2'',
                      summary = ''Match &amp; more'', isbn = ''9780141439587'',
                      bgenre = [''g1'', ''g&lt;2'']\<rparr>]\<rparr>)"
    by (rule trans [OF genre_field_normalized
          [where b = "emma_form\<lparr>f_genre := Seq [''g1'', ''g<2'']\<rparr>" and v = "''g1''"
             and xs = "[''g1'']" and fresh = "''b3''" and s = library and i = "''b2''",
           THEN conjunct2, THEN conjunct2, THEN conjunct2, THEN conjunct1]])
       code_simp
  have g: "book_update_post library ''b2'' emma_form =
       ([Redirect ''/book/b2''],
        library\<lparr>books := find_by_id_and_update bid ''b2''
                 \<lparr>bid = ''b2'', title = ''Emma'', author = ''a2'',
                    summary = ''Match &amp; more'', isbn = ''9780141439587'',
                    bgenre = [''g1'']\<rparr> (books library)\<rparr>)"
    by (rule trans [OF t [THEN conjunct2, THEN conjunct2, THEN conjunct2, THEN conjunct2]])
       code_simp
  have h: "find_by_id bid ''b2''
             (books (library\<lparr>books := find_by_id_and_update bid ''b2''
                 \<lparr>bid = ''b2'', title = ''Emma'', author = ''a2'',
                    summary = ''Match &amp; more'', isbn = ''9780141439587'',
                    bgenre = [''g1'']\<rparr> (books library)\<rparr>))
           = Some \<lparr>bid = ''b2'', title = ''Emma'', author = ''a2'',
               summary = ''Match &amp; more'', isbn = ''9780141439587'', bgenre = [''g1'']\<rparr>"
    by code_simp
  from g h have k: "fst (book_update_post library ''b2'' emma_form) = [Redirect ''/book/b2'']"
    and l: "find_by_id bid ''b2'' (books (snd (book_update_post library ''b2'' emma_form)))
       = Some \<lparr>bid = ''b2'', title = ''Emma'', author = ''a2'',
               summary = ''Match &amp; more'', isbn = ''9780141439587'', bgenre = [''g1'']\<rparr>"
    by (simp_all only: fst_conv snd_conv)
  from a c d f k l show ?thesis by blast
qed

text \<open>
  Claim C4. Create is atomic on validation failure: for every submission to
  \<^verbatim>\<open>book_create_post\<close> whose title is empty after trimming (an absent title included),
  the handler renders the form again, once, with the status 200 and a list of errors that
  holds an error for the field \<^verbatim>\<open>title\<close>, and the store is left as it was: no Book is
  persisted.
\<close>

theorem book_create_post_empty_title:
  assumes "trim (to_string (f_title body)) = []"
  shows "book_create_post fresh s body =
           ([Render ''book_form''
               (Book_form (fst (book_validate fresh (genre_to_array body)))
                          (snd (book_validate fresh (genre_to_array body))))], s)
         \<and> \<lparr>path = ''title'', msg = Title_required, val = []\<rparr>
              \<in> set (snd (book_validate fresh (genre_to_array body)))
         \<and> map status_code (fst (book_create_post fresh s body)) = [200]
         \<and> books (snd (book_create_post fresh s body)) = books s"
proof -
  have t: "f_title (genre_to_array body) = f_title body"
    by (cases "f_genre body") (simp_all add: genre_to_array_def)
  with assms have e: "\<lparr>path = ''title'', msg = Title_required, val = []\<rparr>
              \<in> set (snd (book_validate fresh (genre_to_array body)))"
    by (simp add: book_validate_title)
  then have "snd (book_validate fresh (genre_to_array body)) \<noteq> []" by auto
  then have "book_create_post fresh s body =
           ([Render ''book_form''
               (Book_form (fst (book_validate fresh (genre_to_array body)))
                          (snd (book_validate fresh (genre_to_array body))))], s)"
    by (simp add: book_create_post_def split_beta)
  with e show ?thesis by simp
qed

theorem book_create_post_empty_title_witness:
  "trim (to_string (f_title (emma_form\<lparr>f_title := Some ''   ''\<rparr>))) = []
   \<and> book_create_post ''b3'' library (emma_form\<lparr>f_title := Some ''   ''\<rparr>) =
       ([Render ''book_form''
           (Book_form
              \<lparr>bid = ''b3'', title = [], author = ''a2'', summary = ''Match &amp; more'',
                 isbn = ''9780141439587'', bgenre = [''g1'']\<rparr>
              [\<lparr>path = ''title'', msg = Title_required, val = []\<rparr>])], library)
   \<and> map status_code (fst (book_create_post ''b3'' library (emma_form\<lparr>f_title := Some ''   ''\<rparr>)))
       = [200]"
proof -
  let ?body = "emma_form\<lparr>f_title := Some ''   ''\<rparr>"
  have h: "trim (to_string (f_title ?body)) = []" by code_simp
  have d: "fst (book_validate ''b3'' (genre_to_array ?body)) =
             \<lparr>bid = ''b3'', title = [], author = ''a2'', summary = ''Match &amp; more'',
               isbn = ''9780141439587'', bgenre = [''g1'']\<rparr>"
    by code_simp
  have e: "snd (book_validate ''b3'' (genre_to_array ?body)) =
             [\<lparr>path = ''title'', msg = Title_required, val = []\<rparr>]"
    by code_simp
  note t = book_create_post_empty_title [OF h, of "''b3''" library]
  from t have a: "book_create_post ''b3'' library ?body =
           ([Render ''book_form''
               (Book_form (fst (book_validate ''b3'' (genre_to_array ?body)))
                          (snd (book_validate ''b3'' (genre_to_array ?body))))], library)"
    and b: "map status_code (fst (book_create_post ''b3'' library ?body)) = [200]"
    by blast+
  from a have c: "book_create_post ''b3'' library ?body =
       ([Render ''book_form''
           (Book_form
              \<lparr>bid = ''b3'', title = [], author = ''a2'', summary = ''Match &amp; more'',
                 isbn = ''9780141439587'', bgenre = [''g1'']\<rparr>
              [\<lparr>path = ''title'', msg = Title_required, val = []\<rparr>])], library)"
    by (simp only: d e)
  from h c b show ?thesis by blast
qed

section \<open>The book instance forms\<close>

text \<open>
  Claim C8. The status field of a BookInstance is permissive: for every string submitted as
  status to \<^verbatim>\<open>bookinstance_create_post\<close> or \<^verbatim>\<open>bookinstance_update_post\<close>, no error of
  the validation is on the field \<^verbatim>\<open>status\<close>, the errors are the same as for any other
  status (one of Available, Maintenance, Loaned, Reserved or not), and the status of the
  document is the submitted string, HTML-escaped and otherwise unchanged. That document is
  what the handlers store when there is no error, and what they hand to the form, with
  those errors, otherwise.
\<close>

theorem status_field_permissive:
  "(\<forall>e\<in>set (snd (instance_validate lib i (body\<lparr>f_status := Some st\<rparr>))). path e \<noteq> ''status'')
   \<and> snd (instance_validate lib i (body\<lparr>f_status := Some st\<rparr>))
       = snd (instance_validate lib i (body\<lparr>f_status := Some st'\<rparr>))
   \<and> status (fst (instance_validate lib i (body\<lparr>f_status := Some st\<rparr>))) = escape st
   \<and> bookinstance_create_post lib i s (body\<lparr>f_status := Some st\<rparr>) =
       (if snd (instance_validate lib i (body\<lparr>f_status := Some st\<rparr>)) \<noteq> []
        then ([Render ''bookinstance_form''
                 (Bookinstance_form (fst (instance_validate lib i (body\<lparr>f_status := Some st\<rparr>)))
                    (ibook (fst (instance_validate lib i (body\<lparr>f_status := Some st\<rparr>))))
                    (snd (instance_validate lib i (body\<lparr>f_status := Some st\<rparr>))))], s)
        else ([Redirect (bookinstance_url
                           (fst (instance_validate lib i (body\<lparr>f_status := Some st\<rparr>))))],
              s\<lparr>bookinstances := bookinstances s
                   @ [fst (instance_validate lib i (body\<lparr>f_status := Some st\<rparr>))]\<rparr>))
   \<and> bookinstance_update_post lib s i (body\<lparr>f_status := Some st\<rparr>) =
       (if snd (instance_validate lib i (body\<lparr>f_status := Some st\<rparr>)) \<noteq> []
        then ([Render ''bookinstance_form''
                 (Bookinstance_form (fst (instance_validate lib i (body\<lparr>f_status := Some st\<rparr>)))
                    (ibook (fst (instance_validate lib i (body\<lparr>f_status := Some st\<rparr>))))
                    (snd (instance_validate lib i (body\<lparr>f_status := Some st\<rparr>))))], s)
        else ([Redirect (bookinstance_url
                           (fst (instance_validate lib i (body\<lparr>f_status := Some st\<rparr>))))],
              s\<lparr>bookinstances :=
                   find_by_id_and_update iid i
                     (fst (instance_validate lib i (body\<lparr>f_status := Some st\<rparr>)))
                     (bookinstances s)\<rparr>))"
proof -
  have a: "\<forall>e\<in>set (snd (instance_validate lib i (body\<lparr>f_status := Some st\<rparr>))). path e \<noteq> ''status''"
    by (blast dest: instance_validate_no_status_error)
  have b: "snd (instance_validate lib i (body\<lparr>f_status := Some st\<rparr>))
       = snd (instance_validate lib i (body\<lparr>f_status := Some st'\<rparr>))"
    by (simp add: instance_validate_errors)
  have c: "status (fst (instance_validate lib i (body\<lparr>f_status := Some st\<rparr>))) = escape st"
    by (simp add: instance_validate_doc to_string_def)
  from a b c bookinstance_create_post_cases [of lib i s "body\<lparr>f_status := Some st\<rparr>"]
    bookinstance_update_post_cases [of lib s i "body\<lparr>f_status := Some st\<rparr>"]
  show ?thesis by blast
qed

theorem status_field_permissive_witness:
  "status (fst (instance_validate calendar_lib ''c2'' copy_form)) = ''Lost &lt;worn&gt;''
   \<and> snd (instance_validate calendar_lib ''c2'' copy_form) = []
   \<and> bookinstance_create_post calendar_lib ''c2'' library copy_form =
       ([Redirect ''/bookinstance/c2''],
        library\<lparr>bookinstances := bookinstances library
                 @ [\<lparr>iid = ''c2'', ibook = ''b2'', imprint = ''Penguin, 2003'',
                      status = ''Lost &lt;worn&gt;'', due_back = Due_date (Date 2024 1 31)\<rparr>]\<rparr>)"
proof -
  have e: "copy_form\<lparr>f_status := Some ''Lost <worn>''\<rparr> = copy_form"
    by (simp add: copy_form_def)
  have f: "escape ''Lost <worn>'' = ''Lost &lt;worn&gt;''" by code_simp
  have n: "snd (instance_validate calendar_lib ''c2'' copy_form) = []" by code_simp
  have d: "fst (instance_validate calendar_lib ''c2'' copy_form) =
             \<lparr>iid = ''c2'', ibook = ''b2'', imprint = ''Penguin, 2003'',
               status = ''Lost &lt;worn&gt;'', due_back = Due_date (Date 2024 1 31)\<rparr>"
    by code_simp
  have u: "bookinstance_url \<lparr>iid = ''c2'', ibook = ''b2'', imprint = ''Penguin, 2003'',
               status = ''Lost &lt;worn&gt;'', due_back = Due_date (Date 2024 1 31)\<rparr>
             = ''/bookinstance/c2''"
    by code_simp
  note t = status_field_permissive
    [where lib = calendar_lib and i = "''c2''" and body = copy_form and st = "''Lost <worn>''"
       and st' = "''Available''" and s = library]
  from t have a0: "status (fst (instance_validate calendar_lib ''c2''
                                  (copy_form\<lparr>f_status := Some ''Lost <worn>''\<rparr>)))
                     = escape ''Lost <worn>''"
    by blast
  have a: "status (fst (instance_validate calendar_lib ''c2'' copy_form)) = ''Lost &lt;worn&gt;''"
    using a0 unfolding e f .
  from t have b0: "bookinstance_create_post calendar_lib ''c2'' library
              (copy_form\<lparr>f_status := Some ''Lost <worn>''\<rparr>) =
       (if snd (instance_validate calendar_lib ''c2''
                  (copy_form\<lparr>f_status := Some ''Lost <worn>''\<rparr>)) \<noteq> []
        then ([Render ''bookinstance_form''
                 (Bookinstance_form
                    (fst (instance_validate calendar_lib ''c2''
                            (copy_form\<lparr>f_status := Some ''Lost <worn>''\<rparr>)))
                    (ibook (fst (instance_validate calendar_lib ''c2''
                                   (copy_form\<lparr>f_status := Some ''Lost <worn>''\<rparr>))))
                    (snd (instance_validate calendar_lib ''c2''
                            (copy_form\<lparr>f_status := Some ''Lost <worn>''\<rparr>))))], library)
        else ([Redirect (bookinstance_url
                           (fst (instance_validate calendar_lib ''c2''
                                   (copy_form\<lparr>f_status := Some ''Lost <worn>''\<rparr>))))],
              library\<lparr>bookinstances := bookinstances library
                   @ [fst (instance_validate calendar_lib ''c2''
                             (copy_form\<lparr>f_status := Some ''Lost <worn>''\<rparr>))]\<rparr>))"
    by blast
  have b: "bookinstance_create_post calendar_lib ''c2'' library copy_form =
       ([Redirect ''/bookinstance/c2''],
        library\<lparr>bookinstances := bookinstances library
                 @ [\<lparr>iid = ''c2'', ibook = ''b2'', imprint = ''Penguin, 2003'',
                      status = ''Lost &lt;worn&gt;'', due_back = Due_date (Date 2024 1 31)\<rparr>]\<rparr>)"
    using b0 unfolding e n d u by simp
  from a n b show ?thesis by blast
qed

text \<open>
  Claim C6, as stated, says that a \<^verbatim>\<open>due_back\<close> which is not a valid calendar date fails
  validation, and that a valid ISO 8601 date is converted to a date value. The handler asks
  the check of the validation library, which is not strict, and stores what the conversion
  of the library yields. With the library followed on the two calendar forms:
  \<^verbatim>\<open>2024-02-31\<close>, a day that February 2024 does not have, passes the check and the
  instance is persisted; \<^verbatim>\<open>20240131\<close>, the basic form of a valid date, passes the check
  and is stored as null, since the conversion does not read it.
\<close>

theorem due_back_accepted_counterexample:
  "days_in_month 2024 2 = 29
   \<and> isISO8601 validator_lib ''2024-02-31''
   \<and> fst (bookinstance_create_post validator_lib ''c2'' library
             (copy_form\<lparr>f_due_back := Some ''2024-02-31''\<rparr>))
       = [Redirect ''/bookinstance/c2'']
   \<and> map iid (bookinstances (snd (bookinstance_create_post validator_lib ''c2'' library
                                     (copy_form\<lparr>f_due_back := Some ''2024-02-31''\<rparr>))))
       = [''c1'', ''c2'']
   \<and> isISO8601 validator_lib ''20240131''
   \<and> toDate validator_lib ''20240131'' = None
   \<and> bookinstance_create_post validator_lib ''c2'' library
        (copy_form\<lparr>f_due_back := Some ''20240131''\<rparr>) =
       ([Redirect ''/bookinstance/c2''],
        library\<lparr>bookinstances := bookinstances library
                 @ [\<lparr>iid = ''c2'', ibook = ''b2'', imprint = ''Penguin, 2003'',
                      status = ''Lost &lt;worn&gt;'', due_back = Due_null\<rparr>]\<rparr>)"
  by code_simp

text \<open>
  Claim C6, amended. For every submission to \<^verbatim>\<open>bookinstance_create_post\<close> whose
  \<^verbatim>\<open>due_back\<close> is present and not empty and is rejected by the ISO 8601 check of the
  validation library, validation fails with the message for an invalid date on the field
  \<^verbatim>\<open>due_back\<close>: the form is rendered again with that error after those of the book and
  the imprint, and the store is left as it was. When \<^verbatim>\<open>due_back\<close> is absent or empty, or
  passes the check, it is accepted: the only errors are those of the book and the imprint,
  and without them the instance is persisted. Its \<^verbatim>\<open>due_back\<close> is then undefined for an
  absent field, the empty string for an empty one, and otherwise what the conversion of the
  library yields for the string: a date value when it reads the string as a date, null when
  it does not. The check and the conversion are parameters: the statement holds for every
  validation library.
\<close>

theorem due_back_validated:
  "(f_due_back body = Some d \<and> d \<noteq> [] \<and> \<not> isISO8601 lib d \<longrightarrow>
      bookinstance_create_post lib fresh s body =
        ([Render ''bookinstance_form''
            (Bookinstance_form
               \<lparr>iid = fresh,
                  ibook = escape (trim (to_string (f_book body))),
                  imprint = escape (trim (to_string (f_imprint body))),
                  status = escape (to_string (f_status body)),
                  due_back = (case toDate lib d of Some t \<Rightarrow> Due_date t | None \<Rightarrow> Due_null)\<rparr>
               (escape (trim (to_string (f_book body))))
               ((if 1 \<le> length (trim (to_string (f_book body))) then []
                 else [\<lparr>path = ''book'', msg = Book_required,
                         val = trim (to_string (f_book body))\<rparr>])
                @ (if 1 \<le> length (trim (to_string (f_imprint body))) then []
                   else [\<lparr>path = ''imprint'', msg = Imprint_required,
                           val = trim (to_string (f_imprint body))\<rparr>])
                @ [\<lparr>path = ''due_back'', msg = Invalid_date_format, val = d\<rparr>]))], s))
   \<and> (f_due_back body = None \<or> f_due_back body = Some []
       \<or> (f_due_back body = Some d \<and> isISO8601 lib d) \<longrightarrow>
      bookinstance_create_post lib fresh s body =
        (let bookInstance =
               \<lparr>iid = fresh,
                  ibook = escape (trim (to_string (f_book body))),
                  imprint = escape (trim (to_string (f_imprint body))),
                  status = escape (to_string (f_status body)),
                  due_back =
                    (if f_due_back body = None then Due_undefined
                     else if f_due_back body = Some [] then Due_empty
                     else (case toDate lib d of Some t \<Rightarrow> Due_date t | None \<Rightarrow> Due_null))\<rparr>;
             errors =
               (if 1 \<le> length (trim (to_string (f_book body))) then []
                else [\<lparr>path = ''book'', msg = Book_required,
                        val = trim (to_string (f_book body))\<rparr>])
               @ (if 1 \<le> length (trim (to_string (f_imprint body))) then []
                  else [\<lparr>path = ''imprint'', msg = Imprint_required,
                          val = trim (to_string (f_imprint body))\<rparr>])
         in if errors \<noteq> []
            then ([Render ''bookinstance_form''
                     (Bookinstance_form bookInstance (ibook bookInstance) errors)], s)
            else ([Redirect (''/bookinstance/'' @ fresh)],
                  s\<lparr>bookinstances := bookinstances s @ [bookInstance]\<rparr>)))"
proof (intro conjI impI)
  assume a: "f_due_back body = Some d \<and> d \<noteq> [] \<and> \<not> isISO8601 lib d"
  then have "due_back_field lib (f_due_back body) =
      ((case toDate lib d of Some t \<Rightarrow> Due_date t | None \<Rightarrow> Due_null),
       [\<lparr>path = ''due_back'', msg = Invalid_date_format, val = d\<rparr>])"
    by (simp add: due_back_field_def)
  then show "bookinstance_create_post lib fresh s body =
        ([Render ''bookinstance_form''
            (Bookinstance_form
               \<lparr>iid = fresh,
                  ibook = escape (trim (to_string (f_book body))),
                  imprint = escape (trim (to_string (f_imprint body))),
                  status = escape (to_string (f_status body)),
                  due_back = (case toDate lib d of Some t \<Rightarrow> Due_date t | None \<Rightarrow> Due_null)\<rparr>
               (escape (trim (to_string (f_book body))))
               ((if 1 \<le> length (trim (to_string (f_book body))) then []
                 else [\<lparr>path = ''book'', msg = Book_required,
                         val = trim (to_string (f_book body))\<rparr>])
                @ (if 1 \<le> length (trim (to_string (f_imprint body))) then []
                   else [\<lparr>path = ''imprint'', msg = Imprint_required,
                           val = trim (to_string (f_imprint body))\<rparr>])
                @ [\<lparr>path = ''due_back'', msg = Invalid_date_format, val = d\<rparr>]))], s)"
    by (simp add: bookinstance_create_post_cases instance_validate_errors
        instance_validate_doc required_field_snd)
next
  assume a: "f_due_back body = None \<or> f_due_back body = Some []
       \<or> (f_due_back body = Some d \<and> isISO8601 lib d)"
  then have "due_back_field lib (f_due_back body) =
      ((if f_due_back body = None then Due_undefined
        else if f_due_back body = Some [] then Due_empty
        else (case toDate lib d of Some t \<Rightarrow> Due_date t | None \<Rightarrow> Due_null)), [])"
    by (auto simp: due_back_field_def)
  then show "bookinstance_create_post lib fresh s body =
        (let bookInstance =
               \<lparr>iid = fresh,
                  ibook = escape (trim (to_string (f_book body))),
                  imprint = escape (trim (to_string (f_imprint body))),
                  status = escape (to_string (f_status body)),
                  due_back =
                    (if f_due_back body = None then Due_undefined
                     else if f_due_back body = Some [] then Due_empty
                     else (case toDate lib d of Some t \<Rightarrow> Due_date t | None \<Rightarrow> Due_null))\<rparr>;
             errors =
               (if 1 \<le> length (trim (to_string (f_book body))) then []
                else [\<lparr>path = ''book'', msg = Book_required,
                        val = trim (to_string (f_book body))\<rparr>])
               @ (if 1 \<le> length (trim (to_string (f_imprint body))) then []
                  else [\<lparr>path = ''imprint'', msg = Imprint_required,
                          val = trim (to_string (f_imprint body))\<rparr>])
         in if errors \<noteq> []
            then ([Render ''bookinstance_form''
                     (Bookinstance_form bookInstance (ibook bookInstance) errors)], s)
            else ([Redirect (''/bookinstance/'' @ fresh)],
                  s\<lparr>bookinstances := bookinstances s @ [bookInstance]\<rparr>))"
    by (simp add: bookinstance_create_post_cases instance_validate_errors
        instance_validate_doc required_field_snd bookinstance_url_def Let_def)
qed

theorem due_back_validated_witness:
  "\<not> isISO8601 validator_lib ''not-a-date''
   \<and> bookinstance_create_post validator_lib ''c2'' library
        (copy_form\<lparr>f_due_back := Some ''not-a-date''\<rparr>) =
       ([Render ''bookinstance_form''
           (Bookinstance_form
              \<lparr>iid = ''c2'', ibook = ''b2'', imprint = ''Penguin, 2003'',
                 status = ''Lost &lt;worn&gt;'', due_back = Due_null\<rparr>
              ''b2''
              [\<lparr>path = ''due_back'', msg = Invalid_date_format, val = ''not-a-date''\<rparr>])],
        library)
   \<and> bookinstance_create_post validator_lib ''c2'' library (copy_form\<lparr>f_due_back := None\<rparr>) =
       ([Redirect ''/bookinstance/c2''],
        library\<lparr>bookinstances := bookinstances library
                 @ [\<lparr>iid = ''c2'', ibook = ''b2'', imprint = ''Penguin, 2003'',
                      status = ''Lost &lt;worn&gt;'', due_back = Due_undefined\<rparr>]\<rparr>)
   \<and> isISO8601 validator_lib ''2024-01-31''
   \<and> bookinstance_create_post validator_lib ''c2'' library copy_form =
       ([Redirect ''/bookinstance/c2''],
        library\<lparr>bookinstances := bookinstances library
                 @ [\<lparr>iid = ''c2'', ibook = ''b2'', imprint = ''Penguin, 2003'',
                      status = ''Lost &lt;worn&gt;'',
                      due_back = Due_date (Date 2024 1 31)\<rparr>]\<rparr>)"
proof -
  let ?bad = "copy_form\<lparr>f_due_back := Some ''not-a-date''\<rparr>"
  let ?none = "copy_form\<lparr>f_due_back := None\<rparr>"
  have a1: "f_due_back ?bad = Some ''not-a-date'' \<and> ''not-a-date'' \<noteq> []
              \<and> \<not> isISO8601 validator_lib ''not-a-date''"
    by code_simp
  have a: "bookinstance_create_post validator_lib ''c2'' library ?bad =
       ([Render ''bookinstance_form''
           (Bookinstance_form
              \<lparr>iid = ''c2'', ibook = ''b2'', imprint = ''Penguin, 2003'',
                 status = ''Lost &lt;worn&gt;'', due_back = Due_null\<rparr>
              ''b2''
              [\<lparr>path = ''due_back'', msg = Invalid_date_format, val = ''not-a-date''\<rparr>])],
        library)"
    by (rule trans [OF due_back_validated
          [where body = ?bad and d = "''not-a-date''" and lib = validator_lib
             and fresh = "''c2''" and s = library, THEN conjunct1, THEN mp, OF a1]])
       code_simp
  have b1: "f_due_back ?none = None \<or> f_due_back ?none = Some []
             \<or> (f_due_back ?none = Some ''2024-01-31'' \<and> isISO8601 validator_lib ''2024-01-31'')"
    by simp
  have b: "bookinstance_create_post validator_lib ''c2'' library ?none =
       ([Redirect ''/bookinstance/c2''],
        library\<lparr>bookinstances := bookinstances library
                 @ [\<lparr>iid = ''c2'', ibook = ''b2'', imprint = ''Penguin, 2003'',
                      status = ''Lost &lt;worn&gt;'', due_back = Due_undefined\<rparr>]\<rparr>)"
    by (rule trans [OF due_back_validated
          [where body = ?none and d = "''2024-01-31''" and lib = validator_lib
             and fresh = "''c2''" and s = library, THEN conjunct2, THEN mp, OF b1]])
       code_simp
  have c0: "isISO8601 validator_lib ''2024-01-31''" by code_simp
  have c1: "f_due_back copy_form = None \<or> f_due_back copy_form = Some []
             \<or> (f_due_back copy_form = Some ''2024-01-31''
                 \<and> isISO8601 validator_lib ''2024-01-31'')"
    using c0 by (simp add: copy_form_def)
  have c: "bookinstance_create_post validator_lib ''c2'' library copy_form =
       ([Redirect ''/bookinstance/c2''],
        library\<lparr>bookinstances := bookinstances library
                 @ [\<lparr>iid = ''c2'', ibook = ''b2'', imprint = ''Penguin, 2003'',
                      status = ''Lost &lt;worn&gt;'',
                      due_back = Due_date (Date 2024 1 31)\<rparr>]\<rparr>)"
    by (rule trans [OF due_back_validated
          [where body = copy_form and d = "''2024-01-31''" and lib = validator_lib
             and fresh = "''c2''" and s = library, THEN conjunct2, THEN mp, OF c1]])
       code_simp
  from a1 a b c0 c show ?thesis by blast
qed

section \<open>Creating a genre\<close>












section \<open>Updating a genre, a book or a book instance\<close>






section \<open>Deleting a book instance\<close>

text \<open>
  Claim C10. \<^verbatim>\<open>bookinstance_delete_post\<close> is unconditional: for every request it issues
  the delete for the id of the body and answers with a redirect to the list of book
  instances. It checks neither existence nor dependents: the answer is the same whether or
  not an instance with that id is stored, deleting an id that is not stored leaves the
  store as it is, and nothing but the instance with that id is touched (the other
  instances, the books and the genres stay).
\<close>

theorem bookinstance_delete_post_unconditional:
  "fst (bookinstance_delete_post s i) = [Redirect ''/catalog/bookinstances'']
   \<and> bookinstances (snd (bookinstance_delete_post s i))
       = find_by_id_and_delete iid i (bookinstances s)
   \<and> (find_by_id iid i (bookinstances s) = None \<longrightarrow> snd (bookinstance_delete_post s i) = s)
   \<and> (distinct (map iid (bookinstances s)) \<longrightarrow>
        find_by_id iid i (bookinstances (snd (bookinstance_delete_post s i))) = None)
   \<and> filter (\<lambda>c. iid c \<noteq> i) (bookinstances (snd (bookinstance_delete_post s i)))
       = filter (\<lambda>c. iid c \<noteq> i) (bookinstances s)
   \<and> (\<forall>j. j \<noteq> i \<longrightarrow>
        find_by_id iid j (bookinstances (snd (bookinstance_delete_post s i)))
          = find_by_id iid j (bookinstances s))
   \<and> books (snd (bookinstance_delete_post s i)) = books s
   \<and> genres (snd (bookinstance_delete_post s i)) = genres s"
  by (simp add: bookinstance_delete_post_def delete_absent find_by_id_delete_same
      delete_keeps_others find_by_id_delete_other)

theorem bookinstance_delete_post_unconditional_witness:
  "find_by_id iid ''c7'' (bookinstances library) = None
   \<and> distinct (map iid (bookinstances library))
   \<and> bookinstance_delete_post library ''c7'' = ([Redirect ''/catalog/bookinstances''], library)
   \<and> fst (bookinstance_delete_post library ''c1'') = [Redirect ''/catalog/bookinstances'']
   \<and> find_by_id iid ''c1'' (bookinstances (snd (bookinstance_delete_post library ''c1''))) = None"
proof -
  have a: "find_by_id iid ''c7'' (bookinstances library) = None" by code_simp
  have b: "distinct (map iid (bookinstances library))" by code_simp
  from bookinstance_delete_post_unconditional [of library "''c7''"] a
  have c: "fst (bookinstance_delete_post library ''c7'') = [Redirect ''/catalog/bookinstances'']"
    and d: "snd (bookinstance_delete_post library ''c7'') = library"
    by blast+
  from bookinstance_delete_post_unconditional [of library "''c1''"] b
  have e: "fst (bookinstance_delete_post library ''c1'') = [Redirect ''/catalog/bookinstances'']"
    and f: "find_by_id iid ''c1'' (bookinstances (snd (bookinstance_delete_post library ''c1'')))
              = None"
    by blast+
  from a b c d e f show ?thesis by (simp add: prod_eq_iff)
qed

section \<open>Deleting a genre or a book\<close>

lemma genre_delete_post_free:
  "books_in_genre s p = [] \<Longrightarrow>
   genre_delete_post s p b =
     ([Redirect ''/catalog/genres''], s\<lparr>genres := find_by_id_and_delete gid b (genres s)\<rparr>)"
  by (simp add: genre_delete_post_def)

lemma genre_delete_post_blocked:
  "books_in_genre s p \<noteq> [] \<Longrightarrow>
   genre_delete_post s p b =
     ([Render ''genre_delete'' (Genre_delete (find_by_id gid p (genres s)) (books_in_genre s p))],
      s)"
  by (simp add: genre_delete_post_def)

lemma book_delete_post_free:
  "instances_of_book s p = [] \<Longrightarrow>
   book_delete_post s p b =
     ((if find_by_id bid p (books s) = None then [Redirect ''/catalog/books''] else [])
        @ [Redirect ''/catalog/books''],
      s\<lparr>books := find_by_id_and_delete bid b (books s)\<rparr>)"
  by (simp add: book_delete_post_def Let_def)

lemma book_delete_post_blocked:
  "instances_of_book s p \<noteq> [] \<Longrightarrow>
   book_delete_post s p b =
     ((if find_by_id bid p (books s) = None then [Redirect ''/catalog/books''] else [])
        @ [Render ''book_delete''
             (Book_delete (find_by_id bid p (books s))
                (instances_of_book s p))],
      s)"
  by (simp add: book_delete_post_def Let_def)

text \<open>
  Claim C9. In \<^verbatim>\<open>genre_delete_post\<close> and \<^verbatim>\<open>book_delete_post\<close> the dependents are
  looked up under the id of the URL, but the delete is issued for the id of the body. For
  every request whose body id differs from its URL id, and whose URL id has no dependents:
  the store that results is the old one with the entity of the body id deleted (when ids are
  unique, that id is no longer found), whatever refers to that entity, since its dependents
  are never looked up; the entity of the URL id is found afterwards exactly as before; and
  the handler redirects to the list. (For a book, a URL id that is not stored makes the
  handler call the redirect twice.)
\<close>

theorem delete_post_deletes_body_id:
  assumes "body_id \<noteq> params_id"
  shows "(books_in_genre s params_id = [] \<longrightarrow>
            fst (genre_delete_post s params_id body_id) = [Redirect ''/catalog/genres'']
          \<and> snd (genre_delete_post s params_id body_id)
              = s\<lparr>genres := find_by_id_and_delete gid body_id (genres s)\<rparr>
          \<and> find_by_id gid params_id (genres (snd (genre_delete_post s params_id body_id)))
              = find_by_id gid params_id (genres s)
          \<and> (distinct (map gid (genres s)) \<longrightarrow>
               find_by_id gid body_id (genres (snd (genre_delete_post s params_id body_id)))
                 = None))
       \<and> (instances_of_book s params_id = [] \<longrightarrow>
            fst (book_delete_post s params_id body_id)
              = (if find_by_id bid params_id (books s) = None
                 then [Redirect ''/catalog/books'', Redirect ''/catalog/books'']
                 else [Redirect ''/catalog/books''])
          \<and> snd (book_delete_post s params_id body_id)
              = s\<lparr>books := find_by_id_and_delete bid body_id (books s)\<rparr>
          \<and> find_by_id bid params_id (books (snd (book_delete_post s params_id body_id)))
              = find_by_id bid params_id (books s)
          \<and> (distinct (map bid (books s)) \<longrightarrow>
               find_by_id bid body_id (books (snd (book_delete_post s params_id body_id)))
                 = None))"
  using assms
  by (simp add: genre_delete_post_free book_delete_post_free find_by_id_delete_other
      find_by_id_delete_same)

theorem delete_post_deletes_body_id_witness:
  "''g2'' \<noteq> ''g1'' \<and> books_in_genre library ''g1'' = []
   \<and> books_in_genre library ''g2'' \<noteq> []
   \<and> distinct (map gid (genres library))
   \<and> find_by_id gid ''g2'' (genres library) = Some \<lparr>gid = ''g2'', gname = ''Poetry''\<rparr>
   \<and> fst (genre_delete_post library ''g1'' ''g2'') = [Redirect ''/catalog/genres'']
   \<and> find_by_id gid ''g2'' (genres (snd (genre_delete_post library ''g1'' ''g2''))) = None
   \<and> find_by_id gid ''g1'' (genres (snd (genre_delete_post library ''g1'' ''g2'')))
       = Some \<lparr>gid = ''g1'', gname = ''Fantasy''\<rparr>
   \<and> ''b1'' \<noteq> ''b2'' \<and> instances_of_book library ''b2'' = []
   \<and> instances_of_book library ''b1'' \<noteq> []
   \<and> distinct (map bid (books library))
   \<and> find_by_id bid ''b1'' (books library) \<noteq> None
   \<and> fst (book_delete_post library ''b2'' ''b1'') = [Redirect ''/catalog/books'']
   \<and> find_by_id bid ''b1'' (books (snd (book_delete_post library ''b2'' ''b1''))) = None
   \<and> find_by_id bid ''b2'' (books (snd (book_delete_post library ''b2'' ''b1'')))
       = find_by_id bid ''b2'' (books library)"
proof -
  have g0: "''g2'' \<noteq> ''g1''" by simp
  have g1: "books_in_genre library ''g1'' = []" by code_simp
  have g2: "books_in_genre library ''g2'' \<noteq> []" by code_simp
  have g3: "distinct (map gid (genres library))" by code_simp
  have g4: "find_by_id gid ''g2'' (genres library) = Some \<lparr>gid = ''g2'', gname = ''Poetry''\<rparr>"
    by code_simp
  have g5: "find_by_id gid ''g1'' (genres library) = Some \<lparr>gid = ''g1'', gname = ''Fantasy''\<rparr>"
    by code_simp
  have b0: "''b1'' \<noteq> ''b2''" by simp
  have b1: "instances_of_book library ''b2'' = []" by code_simp
  have b2: "instances_of_book library ''b1'' \<noteq> []" by code_simp
  have b3: "distinct (map bid (books library))" by code_simp
  have b4: "find_by_id bid ''b1'' (books library) \<noteq> None" by code_simp
  have b5: "find_by_id bid ''b2'' (books library) \<noteq> None" by code_simp
  note g = delete_post_deletes_body_id [OF g0, of library]
  note b = delete_post_deletes_body_id [OF b0, of library]
  from g g1 g3
  have g6: "fst (genre_delete_post library ''g1'' ''g2'') = [Redirect ''/catalog/genres'']"
    and g7: "find_by_id gid ''g2'' (genres (snd (genre_delete_post library ''g1'' ''g2''))) = None"
    and g9: "find_by_id gid ''g1'' (genres (snd (genre_delete_post library ''g1'' ''g2'')))
               = find_by_id gid ''g1'' (genres library)"
    by blast+
  from g9 g5
  have g8: "find_by_id gid ''g1'' (genres (snd (genre_delete_post library ''g1'' ''g2'')))
               = Some \<lparr>gid = ''g1'', gname = ''Fantasy''\<rparr>"
    by (rule trans)
  from b b1 b3
  have b9: "fst (book_delete_post library ''b2'' ''b1'')
              = (if find_by_id bid ''b2'' (books library) = None
                 then [Redirect ''/catalog/books'', Redirect ''/catalog/books'']
                 else [Redirect ''/catalog/books''])"
    and b7: "find_by_id bid ''b1'' (books (snd (book_delete_post library ''b2'' ''b1''))) = None"
    and b8: "find_by_id bid ''b2'' (books (snd (book_delete_post library ''b2'' ''b1'')))
               = find_by_id bid ''b2'' (books library)"
    by blast+
  from b9 b5
  have b6: "fst (book_delete_post library ''b2'' ''b1'') = [Redirect ''/catalog/books'']"
    by (simp only: if_False)
  from g0 g1 g2 g3 g4 g6 g7 g8 b0 b1 b2 b3 b4 b6 b7 b8 show ?thesis by blast
qed

lemma books_in_genre_empty:
  "(books_in_genre s i = []) = (\<forall>b\<in>set (books s). i \<notin> set (bgenre b))"
  by (simp add: books_in_genre_def filter_empty_conv)

lemma instances_of_book_empty:
  "(instances_of_book s i = []) = (\<forall>c\<in>set (bookinstances s). ibook c \<noteq> i)"
  by (simp add: instances_of_book_def filter_empty_conv)

text \<open>
  Claim C2, as stated, says that an entity without dependents is deleted by its
  \<^verbatim>\<open>delete_post\<close>. The handlers delete the id of the body, not the id they checked: the
  genre g1 and the book b2 of the sample store have no dependents, and a request for them
  whose body names an id that is not stored leaves the store as it is, g1 and b2 included,
  and redirects to the list.
\<close>

theorem delete_post_no_dependents_counterexample:
  "find_by_id gid ''g1'' (genres library) = Some \<lparr>gid = ''g1'', gname = ''Fantasy''\<rparr>
   \<and> books_in_genre library ''g1'' = []
   \<and> genre_delete_post library ''g1'' ''g9'' = ([Redirect ''/catalog/genres''], library)
   \<and> find_by_id bid ''b2'' (books library) \<noteq> None
   \<and> instances_of_book library ''b2'' = []
   \<and> book_delete_post library ''b2'' ''b9'' = ([Redirect ''/catalog/books''], library)"
  by code_simp

text \<open>
  Claim C2, amended. Delete is blocked by dependents and leaves the store unchanged: for
  every stored Book with at least one BookInstance referencing it, \<^verbatim>\<open>book_delete_post\<close>
  renders the confirmation view again and returns the store as it was; for every Genre
  referenced by at least one Book, \<^verbatim>\<open>genre_delete_post\<close> does the same. When no
  dependents exist, the handler deletes the entity whose id the body of the request names
  and redirects to the entity list; when the body names the id of the URL (and ids are
  unique), that is the entity that was checked, and it is no longer found afterwards.
\<close>

theorem delete_post_blocked_by_dependents:
  "((\<exists>c\<in>set (bookinstances s). ibook c = i) \<and> find_by_id bid i (books s) = Some b \<longrightarrow>
      book_delete_post s i j =
        ([Render ''book_delete''
            (Book_delete (Some b) (instances_of_book s i))], s))
   \<and> ((\<exists>b\<in>set (books s). i \<in> set (bgenre b)) \<longrightarrow>
      genre_delete_post s i j =
        ([Render ''genre_delete''
            (Genre_delete (find_by_id gid i (genres s)) (books_in_genre s i))], s))
   \<and> ((\<forall>c\<in>set (bookinstances s). ibook c \<noteq> i) \<and> find_by_id bid i (books s) = Some b \<longrightarrow>
      book_delete_post s i j =
        ([Redirect ''/catalog/books''], s\<lparr>books := find_by_id_and_delete bid j (books s)\<rparr>)
      \<and> (j = i \<and> distinct (map bid (books s)) \<longrightarrow>
           find_by_id bid i (books (snd (book_delete_post s i j))) = None))
   \<and> ((\<forall>b\<in>set (books s). i \<notin> set (bgenre b)) \<longrightarrow>
      genre_delete_post s i j =
        ([Redirect ''/catalog/genres''], s\<lparr>genres := find_by_id_and_delete gid j (genres s)\<rparr>)
      \<and> (j = i \<and> distinct (map gid (genres s)) \<longrightarrow>
           find_by_id gid i (genres (snd (genre_delete_post s i j))) = None))"
proof (intro conjI impI)
  assume a: "(\<exists>c\<in>set (bookinstances s). ibook c = i) \<and> find_by_id bid i (books s) = Some b"
  then have "instances_of_book s i \<noteq> []"
    by (simp add: instances_of_book_empty)
  with a show "book_delete_post s i j =
        ([Render ''book_delete''
            (Book_delete (Some b) (instances_of_book s i))], s)"
    by (simp add: book_delete_post_blocked)
next
  assume "\<exists>b\<in>set (books s). i \<in> set (bgenre b)"
  then have "books_in_genre s i \<noteq> []" by (simp add: books_in_genre_empty)
  then show "genre_delete_post s i j =
        ([Render ''genre_delete''
            (Genre_delete (find_by_id gid i (genres s)) (books_in_genre s i))], s)"
    by (rule genre_delete_post_blocked)
next
  assume a: "(\<forall>c\<in>set (bookinstances s). ibook c \<noteq> i) \<and> find_by_id bid i (books s) = Some b"
  then have e: "instances_of_book s i = []"
    by (simp add: instances_of_book_empty)
  with a show r: "book_delete_post s i j =
        ([Redirect ''/catalog/books''], s\<lparr>books := find_by_id_and_delete bid j (books s)\<rparr>)"
    by (simp add: book_delete_post_free)
  assume "j = i \<and> distinct (map bid (books s))"
  with r show "find_by_id bid i (books (snd (book_delete_post s i j))) = None"
    by (simp add: find_by_id_delete_same)
next
  assume "\<forall>b\<in>set (books s). i \<notin> set (bgenre b)"
  then have e: "books_in_genre s i = []" by (simp add: books_in_genre_empty)
  then show r: "genre_delete_post s i j =
        ([Redirect ''/catalog/genres''], s\<lparr>genres := find_by_id_and_delete gid j (genres s)\<rparr>)"
    by (rule genre_delete_post_free)
  assume "j = i \<and> distinct (map gid (genres s))"
  with r show "find_by_id gid i (genres (snd (genre_delete_post s i j))) = None"
    by (simp add: find_by_id_delete_same)
qed

theorem delete_post_blocked_by_dependents_witness:
  "(\<exists>c\<in>set (bookinstances library). ibook c = ''b1'')
   \<and> find_by_id bid ''b1'' (books library)
       = Some \<lparr>bid = ''b1'', title = ''Dune'', author = ''a1'', summary = ''Sand'',
               isbn = ''9780441013593'', bgenre = [''g2'']\<rparr>
   \<and> book_delete_post library ''b1'' ''b1'' =
       ([Render ''book_delete''
           (Book_delete
              (Some \<lparr>bid = ''b1'', title = ''Dune'', author = ''a1'', summary = ''Sand'',
                     isbn = ''9780441013593'', bgenre = [''g2'']\<rparr>)
              (instances_of_book library ''b1''))], library)
   \<and> (\<exists>b\<in>set (books library). ''g2'' \<in> set (bgenre b))
   \<and> genre_delete_post library ''g2'' ''g2'' =
       ([Render ''genre_delete''
           (Genre_delete (find_by_id gid ''g2'' (genres library))
              (books_in_genre library ''g2''))], library)
   \<and> instances_of_book library ''b2'' = []
   \<and> find_by_id bid ''b2'' (books library)
       = Some \<lparr>bid = ''b2'', title = ''Emma'', author = ''a2'', summary = ''Match'',
               isbn = ''9780141439587'', bgenre = []\<rparr>
   \<and> distinct (map bid (books library))
   \<and> fst (book_delete_post library ''b2'' ''b2'') = [Redirect ''/catalog/books'']
   \<and> find_by_id bid ''b2'' (books (snd (book_delete_post library ''b2'' ''b2''))) = None
   \<and> books_in_genre library ''g1'' = []
   \<and> distinct (map gid (genres library))
   \<and> fst (genre_delete_post library ''g1'' ''g1'') = [Redirect ''/catalog/genres'']
   \<and> find_by_id gid ''g1'' (genres (snd (genre_delete_post library ''g1'' ''g1''))) = None"
proof -
  let ?dune = "\<lparr>bid = ''b1'', title = ''Dune'', author = ''a1'', summary = ''Sand'',
                isbn = ''9780441013593'', bgenre = [''g2'']\<rparr>"
  let ?emma = "\<lparr>bid = ''b2'', title = ''Emma'', author = ''a2'', summary = ''Match'',
                isbn = ''9780141439587'', bgenre = []\<rparr>"
  have a1: "\<exists>c\<in>set (bookinstances library). ibook c = ''b1''" by code_simp
  have a2: "find_by_id bid ''b1'' (books library) = Some ?dune" by code_simp
  have a3: "\<exists>b\<in>set (books library). ''g2'' \<in> set (bgenre b)" by code_simp
  have a4: "instances_of_book library ''b2'' = []" by code_simp
  then have a5: "\<forall>c\<in>set (bookinstances library). ibook c \<noteq> ''b2''"
    by (simp only: instances_of_book_empty)
  have a6: "find_by_id bid ''b2'' (books library) = Some ?emma" by code_simp
  have a7: "distinct (map bid (books library))" by code_simp
  have a8: "books_in_genre library ''g1'' = []" by code_simp
  then have a9: "\<forall>b\<in>set (books library). ''g1'' \<notin> set (bgenre b)"
    by (simp only: books_in_genre_empty)
  have a10: "distinct (map gid (genres library))" by code_simp
  from delete_post_blocked_by_dependents [of library "''b1''" ?dune "''b1''"] a1 a2
  have c1: "book_delete_post library ''b1'' ''b1'' =
       ([Render ''book_delete''
           (Book_delete (Some ?dune) (instances_of_book library ''b1''))],
        library)"
    by blast
  from delete_post_blocked_by_dependents [of library "''g2''" ?dune "''g2''"] a3
  have c2: "genre_delete_post library ''g2'' ''g2'' =
       ([Render ''genre_delete''
           (Genre_delete (find_by_id gid ''g2'' (genres library))
              (books_in_genre library ''g2''))], library)"
    by blast
  from delete_post_blocked_by_dependents [of library "''b2''" ?emma "''b2''"] a5 a6 a7
  have c3: "book_delete_post library ''b2'' ''b2'' =
        ([Redirect ''/catalog/books''],
         library\<lparr>books := find_by_id_and_delete bid ''b2'' (books library)\<rparr>)"
    and c4: "find_by_id bid ''b2'' (books (snd (book_delete_post library ''b2'' ''b2''))) = None"
    by blast+
  from delete_post_blocked_by_dependents [of library "''g1''" ?dune "''g1''"] a9 a10
  have c5: "genre_delete_post library ''g1'' ''g1'' =
        ([Redirect ''/catalog/genres''],
         library\<lparr>genres := find_by_id_and_delete gid ''g1'' (genres library)\<rparr>)"
    and c6: "find_by_id gid ''g1'' (genres (snd (genre_delete_post library ''g1'' ''g1''))) = None"
    by blast+
  from c3 have c7: "fst (book_delete_post library ''b2'' ''b2'') = [Redirect ''/catalog/books'']"
    by (simp only: fst_conv)
  from c5 have c8: "fst (genre_delete_post library ''g1'' ''g1'') = [Redirect ''/catalog/genres'']"
    by (simp only: fst_conv)
  from a1 a2 c1 a3 c2 a4 a6 a7 c7 c4 a8 a10 c8 c6 show ?thesis by blast
qed

section \<open>The confirmation page of a delete\<close>

text \<open>
  Claim C3 says that for an id that matches no stored entity the \<^verbatim>\<open>delete_get\<close>
  handlers of Book, Genre and BookInstance redirect to the list and do not render the
  confirmation view. The handlers do call the redirect, but the branch does not return:
  for every such id each of them goes on to render its confirmation view, with nothing in
  the place of the entity.
\<close>

theorem delete_get_missing_falls_through:
  "(find_by_id gid i (genres s) = None \<longrightarrow>
      genre_delete_get s i =
        [Redirect ''/catalog/genres'',
         Render ''genre_delete'' (Genre_delete None (books_in_genre s i))])
   \<and> (find_by_id bid i (books s) = None \<longrightarrow>
      book_delete_get s i =
        [Redirect ''/catalog/books'',
         Render ''book_delete''
           (Book_delete None (instances_of_book s i))])
   \<and> (find_by_id iid i (bookinstances s) = None \<longrightarrow>
      bookinstance_delete_get s i =
        [Redirect ''/catalog/bookinstances'',
         Render ''bookinstance_delete'' (Bookinstance_delete None)])"
  by (simp add: genre_delete_get_def book_delete_get_def bookinstance_delete_get_def)

theorem delete_get_missing_falls_through_witness:
  "find_by_id gid ''x9'' (genres library) = None
   \<and> genre_delete_get library ''x9'' =
        [Redirect ''/catalog/genres'',
         Render ''genre_delete'' (Genre_delete None (books_in_genre library ''x9''))]
   \<and> find_by_id bid ''x9'' (books library) = None
   \<and> book_delete_get library ''x9'' =
        [Redirect ''/catalog/books'',
         Render ''book_delete''
           (Book_delete None (instances_of_book library ''x9''))]
   \<and> find_by_id iid ''x9'' (bookinstances library) = None
   \<and> bookinstance_delete_get library ''x9'' =
        [Redirect ''/catalog/bookinstances'',
         Render ''bookinstance_delete'' (Bookinstance_delete None)]"
proof -
  have a: "find_by_id gid ''x9'' (genres library) = None" by code_simp
  have b: "find_by_id bid ''x9'' (books library) = None" by code_simp
  have c: "find_by_id iid ''x9'' (bookinstances library) = None" by code_simp
  from delete_get_missing_falls_through [of "''x9''" library] a b c show ?thesis by blast
qed

end
